theory Spec2Isabelle
  imports Complex_Main "HOL-Library.AList" "HOL-Library.Sublist"
begin

section \<open>Time\<close>

text \<open>
  Instants are milliseconds since the epoch, as \<open>Date.now()\<close> and \<open>Date.getTime()\<close>
  return them. Every operation below takes the instant \<open>now\<close> at which it runs; the
  several clock reads a synchronous JavaScript method makes are taken to observe that one
  instant. An invalid \<open>Date\<close> (time value \<open>NaN\<close>) is \<open>None\<close>.
\<close>

type_synonym instant = int

definition msPerDay :: int where
  "msPerDay = 1000 * 60 * 60 * 24"

definition ceilDays :: "int \<Rightarrow> int" where
  \<comment> \<open>\<open>Math.ceil(d / (1000 * 60 * 60 * 24))\<close> for an integer \<open>d\<close>\<close>
  "ceilDays d = - ((- d) div msPerDay)"

section \<open>Response cache (cache-manager.js)\<close>

record 'v CacheEntry =
  entry_key :: string
  entry_value :: 'v
  createdAt :: instant
  ttl :: int
  accessCount :: nat
  lastAccessed :: instant

definition newCacheEntry :: "instant \<Rightarrow> string \<Rightarrow> 'v \<Rightarrow> int \<Rightarrow> 'v CacheEntry" where
  "newCacheEntry now k v t =
     \<lparr>entry_key = k, entry_value = v, createdAt = now, ttl = t, accessCount = 0,
      lastAccessed = now\<rparr>"

definition isExpired :: "instant \<Rightarrow> 'v CacheEntry \<Rightarrow> bool" where
  "isExpired now e = (now - createdAt e > ttl e)"

definition touch :: "instant \<Rightarrow> 'v CacheEntry \<Rightarrow> 'v CacheEntry" where
  "touch now e = e\<lparr>accessCount := accessCount e + 1, lastAccessed := now\<rparr>"

record CacheStats =
  hits :: nat
  misses :: nat
  evictions :: nat
  stat_size :: nat

text \<open>
  The JavaScript \<open>Map\<close> keeps its entries in insertion order; it is an association list
  with distinct keys: \<open>Map.set\<close> on a present key replaces the value in place, on an
  absent key appends (\<open>AList.update\<close>), \<open>Map.delete\<close> is \<open>AList.delete\<close>,
  \<open>Map.size\<close> is the length.
\<close>

record 'v CacheManager =
  maxSize :: nat
  defaultTTL :: int
  cache :: "(string \<times> 'v CacheEntry) list"
  stats :: CacheStats

definition newCacheManager :: "nat \<Rightarrow> int \<Rightarrow> 'v CacheManager" where
  \<comment> \<open>\<open>options.maxSize || 1000\<close>, \<open>options.defaultTTL || 300000\<close>\<close>
  "newCacheManager m t =
     \<lparr>maxSize = (if m = 0 then 1000 else m),
      defaultTTL = (if t = 0 then 300000 else t),
      cache = [],
      stats = \<lparr>hits = 0, misses = 0, evictions = 0, stat_size = 0\<rparr>\<rparr>"

definition cache_get :: "instant \<Rightarrow> string \<Rightarrow> 'v CacheManager \<Rightarrow> 'v option \<times> 'v CacheManager" where
  "cache_get now k c =
     (case map_of (cache c) k of
        None \<Rightarrow> (None, c\<lparr>stats := (stats c)\<lparr>misses := misses (stats c) + 1\<rparr>\<rparr>)
      | Some e \<Rightarrow>
          if isExpired now e then
            (let cache' = AList.delete k (cache c) in
             (None, c\<lparr>cache := cache',
                      stats := (stats c)\<lparr>misses := misses (stats c) + 1,
                                        stat_size := length cache'\<rparr>\<rparr>))
          else
            (Some (entry_value e),
             c\<lparr>cache := AList.update k (touch now e) (cache c),
               stats := (stats c)\<lparr>hits := hits (stats c) + 1\<rparr>\<rparr>))"

definition lruScan ::
  "instant \<Rightarrow> (string \<times> 'v CacheEntry) list \<Rightarrow> string option \<times> instant" where
  \<comment> \<open>the \<open>for\<close> loop of \<open>evictLRU\<close>, started from \<open>lruKey = null\<close>, \<open>lruTime = Date.now()\<close>\<close>
  "lruScan now es =
     foldl (\<lambda>(lruKey, lruTime) (k, e).
              if lastAccessed e < lruTime then (Some k, lastAccessed e) else (lruKey, lruTime))
           (None, now) es"

definition evictLRU :: "instant \<Rightarrow> 'v CacheManager \<Rightarrow> 'v CacheManager" where
  \<comment> \<open>\<open>if (lruKey)\<close>: \<open>null\<close> and the empty string are falsy\<close>
  "evictLRU now c =
     (case fst (lruScan now (cache c)) of
        None \<Rightarrow> c
      | Some k \<Rightarrow>
          if k = [] then c
          else (let cache' = AList.delete k (cache c) in
                c\<lparr>cache := cache',
                  stats := (stats c)\<lparr>evictions := evictions (stats c) + 1,
                                    stat_size := length cache'\<rparr>\<rparr>))"

definition cache_set ::
  "instant \<Rightarrow> string \<Rightarrow> 'v \<Rightarrow> int option \<Rightarrow> 'v CacheManager \<Rightarrow> 'v CacheManager" where
  \<comment> \<open>\<open>set(key, value, ttl = this.defaultTTL)\<close>\<close>
  "cache_set now k v t c =
     (let t' = (case t of None \<Rightarrow> defaultTTL c | Some x \<Rightarrow> x);
          c1 = (if map_of (cache c) k \<noteq> None then c\<lparr>cache := AList.delete k (cache c)\<rparr> else c);
          c2 = (if length (cache c1) \<ge> maxSize c1 then evictLRU now c1 else c1);
          cache' = AList.update k (newCacheEntry now k v t') (cache c2)
      in c2\<lparr>cache := cache', stats := (stats c2)\<lparr>stat_size := length cache'\<rparr>\<rparr>)"

definition cache_delete :: "string \<Rightarrow> 'v CacheManager \<Rightarrow> 'v CacheManager" where
  "cache_delete k c =
     (if map_of (cache c) k \<noteq> None then
        (let cache' = AList.delete k (cache c) in
         c\<lparr>cache := cache', stats := (stats c)\<lparr>stat_size := length cache'\<rparr>\<rparr>)
      else c)"

definition cache_size :: "'v CacheManager \<Rightarrow> nat" where
  "cache_size c = length (cache c)"




section \<open>Rate limiter (rate-limiter.js)\<close>

text \<open>
  The limiter keeps its data in a JSON file: the list of call instants (ISO strings in the
  file), the end of the current block (or \<open>null\<close>) and the instant of the last reset.
  \<open>loadRateLimitData\<close> reads the file, \<open>saveRateLimitData\<close> overwrites it; the file's
  content is the persistent state, a value of \<open>RateLimitData\<close>.
\<close>

record RateLimitData =
  calls :: "instant list"
  blockedUntil :: "instant option"
  lastReset :: instant

definition callsPerMinute :: nat where "callsPerMinute = 5"
definition callsPerHour :: nat where "callsPerHour = 20"
definition blockDurationMinutes :: int where "blockDurationMinutes = 15"

datatype RateLimitReason =
  RATE_LIMIT_BLOCKED | HOURLY_LIMIT_EXCEEDED | MINUTE_LIMIT_EXCEEDED | OK

text \<open>
  The \<open>message\<close> of a check is a template filled with one number; it is kept as the
  template's name and that number.
\<close>

datatype RateLimitMessage =
  BlockedForMinutes int      \<comment> \<open>\<open>API key is blocked for N more minutes\<close>\<close>
| HourlyLimitBlocked int     \<comment> \<open>\<open>Hourly limit exceeded. Blocked for N minutes\<close>\<close>
| MinuteLimitWait int        \<comment> \<open>\<open>Minute limit exceeded. Wait N seconds\<close>\<close>
| CallAllowed                \<comment> \<open>\<open>API call allowed\<close>\<close>

record RateLimitCheck =
  allowed :: bool
  reason :: RateLimitReason
  retryAfter :: int
  message :: RateLimitMessage

text \<open>
  One run of \<open>canMakeCall\<close>: the answer, the local copy \<open>data\<close> as the method leaves it
  (the history its counters were computed from), and the content of the file afterwards.
  Only the hourly-limit branch calls \<open>saveRateLimitData\<close>.
\<close>

record CanMakeCallRun =
  answer :: RateLimitCheck
  working :: RateLimitData
  stored :: RateLimitData

definition clearExpiredBlock :: "instant \<Rightarrow> RateLimitData \<Rightarrow> RateLimitData" where
  \<comment> \<open>the \<open>else\<close> branch under \<open>Block period expired, clear it\<close>\<close>
  "clearExpiredBlock now d = d\<lparr>blockedUntil := None, calls := [], lastReset := now\<rparr>"

text \<open>
  \<open>canMakeCall\<close> from \<open>Clean old calls\<close> on, for the local copy \<open>d\<close> and the content
  \<open>file\<close> of the file. The per-minute branch reads \<open>recentCalls[0]\<close>; it is taken with
  at least \<open>callsPerMinute\<close> recent calls, so the list has a first element there.
\<close>

definition checkWindows :: "instant \<Rightarrow> RateLimitData \<Rightarrow> RateLimitData \<Rightarrow> CanMakeCallRun" where
  "checkWindows now file d =
     (let oneHourAgo = now - 60 * 60 * 1000;
          d1 = d\<lparr>calls := filter (\<lambda>callTime. callTime > oneHourAgo) (calls d)\<rparr>
      in if length (calls d1) \<ge> callsPerHour then
           (let blockUntil = now + blockDurationMinutes * 60 * 1000;
                d2 = d1\<lparr>blockedUntil := Some blockUntil\<rparr>
            in \<lparr>answer = \<lparr>allowed = False, reason = HOURLY_LIMIT_EXCEEDED,
                           retryAfter = blockDurationMinutes * 60 * 1000,
                           message = HourlyLimitBlocked blockDurationMinutes\<rparr>,
                working = d2, stored = d2\<rparr>)
         else
           (let oneMinuteAgo = now - 60 * 1000;
                recentCalls = filter (\<lambda>callTime. callTime > oneMinuteAgo) (calls d1)
            in case recentCalls of
                 first # _ \<Rightarrow>
                   if length recentCalls \<ge> callsPerMinute then
                     (let waitTime = 60 - (now - first) div 1000
                      in \<lparr>answer = \<lparr>allowed = False, reason = MINUTE_LIMIT_EXCEEDED,
                                     retryAfter = waitTime * 1000,
                                     message = MinuteLimitWait waitTime\<rparr>,
                          working = d1, stored = file\<rparr>)
                   else \<lparr>answer = \<lparr>allowed = True, reason = OK, retryAfter = 0,
                                     message = CallAllowed\<rparr>,
                         working = d1, stored = file\<rparr>
               | [] \<Rightarrow> \<lparr>answer = \<lparr>allowed = True, reason = OK, retryAfter = 0,
                                   message = CallAllowed\<rparr>,
                       working = d1, stored = file\<rparr>))"

definition canMakeCall :: "instant \<Rightarrow> RateLimitData \<Rightarrow> CanMakeCallRun" where
  "canMakeCall now file =
     (case blockedUntil file of
        Some blockUntil \<Rightarrow>
          if now < blockUntil then
            (let remainingMinutes = - ((- (blockUntil - now)) div (1000 * 60))
             in \<lparr>answer = \<lparr>allowed = False, reason = RATE_LIMIT_BLOCKED,
                            retryAfter = remainingMinutes * 60 * 1000,
                            message = BlockedForMinutes remainingMinutes\<rparr>,
                 working = file, stored = file\<rparr>)
          else checkWindows now file (clearExpiredBlock now file)
      | None \<Rightarrow> checkWindows now file file)"

definition recordCall :: "instant \<Rightarrow> bool \<Rightarrow> RateLimitData \<Rightarrow> RateLimitData" where
  \<comment> \<open>\<open>push\<close> the instant, then \<open>pop\<close> it again \<open>if (!success)\<close>; save\<close>
  "recordCall now success file =
     (let pushed = file\<lparr>calls := calls file @ [now]\<rparr>
      in if \<not> success then pushed\<lparr>calls := butlast (calls pushed)\<rparr> else pushed)"

definition rateLimiter_reset :: "instant \<Rightarrow> RateLimitData" where
  "rateLimiter_reset now = \<lparr>calls = [], blockedUntil = None, lastReset = now\<rparr>"


section \<open>Compliance manager (api-compliance.js)\<close>

text \<open>
  An argument of \<open>validateCall\<close> and \<open>validateDateRange\<close> is falsy (\<open>Absent\<close>), or it is
  parsed by \<open>parseIndiaMartDate\<close> to an invalid date (\<open>Unparseable\<close>) or to an instant.
\<close>

datatype DateInput = Absent | Unparseable | At instant

record DateRangeCheck =
  dr_isValid :: bool
  dr_errors :: "string list"

definition cm_validateDateRange :: "instant \<Rightarrow> DateInput \<Rightarrow> DateInput \<Rightarrow> DateRangeCheck" where
  \<comment> \<open>\<open>(end - start) / msPerDay > 7\<close> is \<open>end - start > 7 * msPerDay\<close>\<close>
  "cm_validateDateRange now startTime endTime =
     (if startTime = Absent \<or> endTime = Absent then
        \<lparr>dr_isValid = False, dr_errors = [''Both start_time and end_time are required'']\<rparr>
      else
        (let errors =
               (if startTime = Unparseable then [''Invalid start_time format''] else [])
             @ (if endTime = Unparseable then [''Invalid end_time format''] else [])
             @ (case (startTime, endTime) of
                  (At start, At end) \<Rightarrow>
                      (if start \<ge> end then [''end_time must be greater than start_time''] else [])
                    @ (if end - start > 7 * msPerDay
                       then [''Date range cannot exceed 7 days (IndiaMART requirement)''] else [])
                    @ (if now - start > 365 * msPerDay
                       then [''Data older than 365 days is not available''] else [])
                | _ \<Rightarrow> [])
         in \<lparr>dr_isValid = (errors = []), dr_errors = errors\<rparr>))"

record ComplianceState =
  callHistory :: "instant list"
  lastCallTime :: "instant option"
  isBlocked :: bool
  cm_blockedUntil :: "instant option"

definition minIntervalMs :: int where "minIntervalMs = 5 * 60 * 1000"
definition maxCallsPerMinute :: nat where "maxCallsPerMinute = 5"
definition blockDurationMs :: int where "blockDurationMs = 15 * 60 * 1000"

definition newComplianceState :: ComplianceState where
  "newComplianceState =
     \<lparr>callHistory = [], lastCallTime = None, isBlocked = False, cm_blockedUntil = None\<rparr>"

datatype ViolationType =
  API_KEY_BLOCKED | MINIMUM_INTERVAL_VIOLATION | RATE_LIMIT_EXCEEDED | DATE_RANGE_VIOLATION

text \<open>
  A violation carries its type and \<open>retryAfter\<close>; for a date-range violation the errors
  that its message joins. The other messages repeat \<open>retryAfter\<close> in words.
\<close>

record Violation =
  v_type :: ViolationType
  v_errors :: "string list"
  v_retryAfter :: int

record CallCheck =
  isValid :: bool
  violations :: "Violation list"

definition truthyTime :: "instant option \<Rightarrow> bool" where
  \<comment> \<open>\<open>if (this.lastCallTime)\<close>: \<open>null\<close> and \<open>0\<close> are falsy\<close>
  "truthyTime t = (case t of None \<Rightarrow> False | Some x \<Rightarrow> x \<noteq> 0)"

definition numberOf :: "instant option \<Rightarrow> int" where
  \<comment> \<open>\<open>null\<close> in a comparison or a subtraction is \<open>0\<close>\<close>
  "numberOf t = (case t of None \<Rightarrow> 0 | Some x \<Rightarrow> x)"

definition validateCall ::
  "instant \<Rightarrow> DateInput \<Rightarrow> DateInput \<Rightarrow> ComplianceState \<Rightarrow> CallCheck \<times> ComplianceState" where
  "validateCall now startTime endTime s =
     (let blockedV =
            (if isBlocked s \<and> now < numberOf (cm_blockedUntil s)
             then [\<lparr>v_type = API_KEY_BLOCKED, v_errors = [],
                    v_retryAfter = numberOf (cm_blockedUntil s) - now\<rparr>]
             else []);
          s' = (if isBlocked s \<and> \<not> now < numberOf (cm_blockedUntil s)
                then s\<lparr>isBlocked := False, cm_blockedUntil := None\<rparr> else s);
          intervalV =
            (if truthyTime (lastCallTime s') \<and> now - numberOf (lastCallTime s') < minIntervalMs
             then [\<lparr>v_type = MINIMUM_INTERVAL_VIOLATION, v_errors = [],
                    v_retryAfter = minIntervalMs - (now - numberOf (lastCallTime s'))\<rparr>]
             else []);
          oneMinuteAgo = now - 60000;
          recentCalls = filter (\<lambda>time. time > oneMinuteAgo) (callHistory s');
          rateV =
            (case recentCalls of
               first # rest \<Rightarrow>
                 if length recentCalls \<ge> maxCallsPerMinute
                 then [\<lparr>v_type = RATE_LIMIT_EXCEEDED, v_errors = [],
                        v_retryAfter = fold min rest first + 60000 - now\<rparr>]
                 else []
             | [] \<Rightarrow> []);
          dateValidation = cm_validateDateRange now startTime endTime;
          dateV =
            (if \<not> dr_isValid dateValidation
             then [\<lparr>v_type = DATE_RANGE_VIOLATION, v_errors = dr_errors dateValidation,
                    v_retryAfter = 0\<rparr>]
             else []);
          violations = blockedV @ intervalV @ rateV @ dateV
      in (\<lparr>isValid = (violations = []), violations = violations\<rparr>, s'))"

definition cm_recordCall :: "instant \<Rightarrow> ComplianceState \<Rightarrow> ComplianceState" where
  "cm_recordCall now s =
     (let oneHourAgo = now - 60 * 60 * 1000
      in s\<lparr>lastCallTime := Some now,
           callHistory := filter (\<lambda>time. time > oneHourAgo) (callHistory s @ [now])\<rparr>)"

section \<open>Date compliance (date-compliance.js)\<close>

definition maxDateRangeDays :: int where "maxDateRangeDays = 7"
definition maxHistoricalDays :: int where "maxHistoricalDays = 365"

datatype ComplianceTag = INVALID_DATES | COMPLIANT | NON_COMPLIANT

text \<open>
  The object \<open>validateDateRange\<close> returns. The early return for malformed dates has no
  \<open>dateRange\<close> and no \<open>historical\<close> part: there \<open>c_days\<close> and \<open>c_daysFromNow\<close> are \<open>None\<close>.
\<close>

record ComplianceResult =
  c_isValid :: bool
  c_errors :: "string list"
  c_warnings :: "string list"
  c_compliance :: ComplianceTag
  c_days :: "int option"
  c_daysFromNow :: "int option"

definition validateDateRange ::
  "instant \<Rightarrow> instant option \<Rightarrow> instant option \<Rightarrow> ComplianceResult" where
  "validateDateRange now startDate endDate =
     (case (startDate, endDate) of
        (Some start, Some end) \<Rightarrow>
          (let daysDiff = ceilDays (end - start);
               daysFromNow = ceilDays (now - start);
               errors =
                   (if start \<ge> end then [''Start date must be before end date''] else [])
                 @ (if end > now then [''End date cannot be in the future''] else [])
                 @ (if daysDiff > maxDateRangeDays
                    then [''Date range cannot exceed 7 days (IndiaMART limit)''] else [])
                 @ (if daysFromNow > maxHistoricalDays
                    then [''Data older than 365 days is not available (IndiaMART limit)'']
                    else [])
                 @ (if daysFromNow < 0 then [''Start date cannot be in the future''] else []);
               warnings =
                   (if daysDiff = maxDateRangeDays
                    then [''Using maximum allowed date range''] else [])
                 @ (if daysFromNow > 300
                    then [''Requesting data older than 300 days - may have limited availability'']
                    else [])
           in \<lparr>c_isValid = (errors = []), c_errors = errors, c_warnings = warnings,
               c_compliance = (if errors = [] then COMPLIANT else NON_COMPLIANT),
               c_days = Some daysDiff, c_daysFromNow = Some daysFromNow\<rparr>)
      | _ \<Rightarrow>
          \<lparr>c_isValid = False,
           c_errors = (if startDate = None then [''Invalid start date format''] else [])
                    @ (if endDate = None then [''Invalid end date format''] else []),
           c_warnings = [], c_compliance = INVALID_DATES,
           c_days = None, c_daysFromNow = None\<rparr>)"

record LastDaysRange =
  startDate :: instant
  endDate :: instant
  requestedDays :: int
  actualDays :: int
  compliance :: ComplianceResult


section \<open>Error classification and retry policy (error-handler.js)\<close>

datatype ErrorType =
  RATE_LIMIT_5_MIN | RATE_LIMIT_15_MIN | INVALID_API_KEY | API_KEY_EXPIRED_INACTIVITY
| API_KEY_EXPIRED_NEW_GENERATED | NO_LEADS | HISTORICAL_DATA_UNAVAILABLE
| DATE_RANGE_TOO_LARGE | MISSING_DATE_PARAMETERS | INVALID_DATE_FORMAT | SERVER_ERROR
| UNKNOWN_ERROR | UNHANDLED_ERROR

record ErrorDetails =
  d_type :: ErrorType
  d_retryAfter :: int
  d_suggestion :: string

text \<open>
  An \<open>IndiaMartError\<close>: message, code, status and details. The details also hold the raw
  response and a timestamp, which no decision reads. An error built without details
  (\<open>details = {}\<close>) has \<open>e_details = None\<close>.
\<close>

record IndiaMartError =
  e_message :: string
  e_code :: int
  e_status :: "string option"
  e_details :: "ErrorDetails option"

definition msgIncludes :: "string option \<Rightarrow> string \<Rightarrow> bool" where
  \<comment> \<open>\<open>message && message.msgIncludes(p)\<close>; an absent message is falsy\<close>
  "msgIncludes m p = (case m of None \<Rightarrow> False | Some s \<Rightarrow> sublist p s)"

definition mkError ::
  "string \<Rightarrow> int \<Rightarrow> string option \<Rightarrow> ErrorType \<Rightarrow> int \<Rightarrow> string \<Rightarrow> IndiaMartError" where
  "mkError msg code status ty after sugg =
     \<lparr>e_message = msg, e_code = code, e_status = status,
      e_details = Some \<lparr>d_type = ty, d_retryAfter = after, d_suggestion = sugg\<rparr>\<rparr>"

definition unhandledError :: "int \<Rightarrow> string option \<Rightarrow> string option \<Rightarrow> IndiaMartError" where
  \<comment> \<open>the fallback after the \<open>switch\<close>; \<open>message || 'Unknown API error'\<close>\<close>
  "unhandledError code status m =
     mkError (case m of None \<Rightarrow> ''Unknown API error''
              | Some s \<Rightarrow> if s = [] then ''Unknown API error'' else s)
       code status UNHANDLED_ERROR (10 * 1000) ''Check error details and retry''"

definition createSpecificError ::
  "int \<Rightarrow> string option \<Rightarrow> string option \<Rightarrow> IndiaMartError" where
  "createSpecificError code status m =
     (if code = 429 then
        (if msgIncludes m ''5 minutes'' then
           mkError ''Rate limit exceeded - API can only be called once every 5 minutes''
             code status RATE_LIMIT_5_MIN (5 * 60 * 1000) ''Wait 5 minutes before retrying''
         else if msgIncludes m ''Too Many Requests'' then
           mkError ''Too many requests - API key disabled for 15 minutes''
             code status RATE_LIMIT_15_MIN (15 * 60 * 1000) ''Wait 15 minutes before retrying''
         else unhandledError code status m)
      else if code = 401 then
        (if msgIncludes m ''incorrect'' then
           mkError ''Invalid API key - Please check your CRM key''
             code status INVALID_API_KEY 0
             ''Verify your INDIAMART_CRM_KEY in environment variables''
         else if msgIncludes m ''expired'' \<and> msgIncludes m ''no longer in use'' then
           mkError ''API key expired due to inactivity - Generate new key''
             code status API_KEY_EXPIRED_INACTIVITY 0
             ''Generate new API key from IndiaMART seller portal''
         else if msgIncludes m ''expired'' \<and> msgIncludes m ''generated'' then
           mkError ''API key expired - New key generated''
             code status API_KEY_EXPIRED_NEW_GENERATED 0
             ''Use the new API key from your email/SMS''
         else unhandledError code status m)
      else if code = 204 then
        (if msgIncludes m ''no leads'' then
           mkError ''No leads found in the specified time range''
             code status NO_LEADS 0 ''Try a different time range''
         else if msgIncludes m ''available after 24 hours'' then
           mkError ''Historical data not yet available - Wait 24 hours''
             code status HISTORICAL_DATA_UNAVAILABLE (24 * 60 * 60 * 1000)
             ''Wait 24 hours or fetch only recent data''
         else unhandledError code status m)
      else if code = 400 then
        (if msgIncludes m ''365 days'' then
           mkError ''Date range exceeds 365 days limit''
             code status DATE_RANGE_TOO_LARGE 0 ''Reduce date range to last 365 days''
         else if msgIncludes m ''date parameters'' then
           mkError ''Missing required date parameters''
             code status MISSING_DATE_PARAMETERS 0
             ''Provide both start_time and end_time parameters''
         else if msgIncludes m ''Date format'' then
           mkError ''Invalid date format''
             code status INVALID_DATE_FORMAT 0 ''Use DD-MM-YYYY HH:MM:SS format''
         else unhandledError code status m)
      else if code = 500 then
        mkError ''IndiaMART server error - Internal issues''
          code status SERVER_ERROR (30 * 1000)
          ''Retry after 30 seconds or contact IndiaMART support''
      else
        mkError (''Unknown error: '' @ (case m of None \<Rightarrow> ''undefined'' | Some s \<Rightarrow> s))
          code status UNKNOWN_ERROR (10 * 1000) ''Check IndiaMART API documentation'')"

definition noRetryTypes :: "ErrorType list" where
  "noRetryTypes =
     [INVALID_API_KEY, API_KEY_EXPIRED_INACTIVITY, API_KEY_EXPIRED_NEW_GENERATED, NO_LEADS,
      DATE_RANGE_TOO_LARGE, MISSING_DATE_PARAMETERS, INVALID_DATE_FORMAT]"

definition handlerMaxRetries :: "int \<Rightarrow> int" where
  \<comment> \<open>\<open>options.maxRetries || 3\<close>\<close>
  "handlerMaxRetries m = (if m = 0 then 3 else m)"

definition shouldRetry :: "int \<Rightarrow> IndiaMartError \<Rightarrow> int \<Rightarrow> bool" where
  \<comment> \<open>\<open>error.details?.type\<close> of an error without details is in no list\<close>
  "shouldRetry maxRetries error attemptCount =
     (if attemptCount \<ge> maxRetries then False
      else (case e_details error of
              None \<Rightarrow> True
            | Some d \<Rightarrow> d_type d \<notin> set noRetryTypes))"





section \<open>Input validation of a date (input-validator.js)\<close>

text \<open>
  An argument of \<open>validateDate\<close> is a string or a \<open>Date\<close> object, with the time value it
  denotes (\<open>None\<close> for \<open>NaN\<close>), or something else. The bounds \<open>oneYearAgo\<close> and
  \<open>oneYearFromNow\<close> are local calendar dates built from the current date; they are taken
  from the clock.
\<close>

datatype DateArg = NotADate | DateArg "instant option"

record Clock =
  clock_now :: instant           \<comment> \<open>the instant of the checks before the client call\<close>
  clock_done :: instant          \<comment> \<open>the instant at which the client call has returned\<close>
  oneYearAgo :: instant
  oneYearFromNow :: instant

record DateValidation =
  dv_isValid :: bool
  dv_value :: "instant option"
  dv_errors :: "string list"

definition validateDate :: "Clock \<Rightarrow> DateArg \<Rightarrow> DateValidation" where
  "validateDate clk date =
     (case date of
        NotADate \<Rightarrow>
          \<lparr>dv_isValid = False, dv_value = None,
           dv_errors = [''Date must be a string or Date object'']\<rparr>
      | DateArg None \<Rightarrow>
          \<lparr>dv_isValid = False, dv_value = None, dv_errors = [''Invalid date format'']\<rparr>
      | DateArg (Some dateObj) \<Rightarrow>
          (let errors =
                 (if dateObj < oneYearAgo clk then [''Date is too far in the past''] else [])
               @ (if dateObj > oneYearFromNow clk then [''Date is too far in the future'']
                  else [])
           in \<lparr>dv_isValid = (errors = []), dv_value = Some dateObj, dv_errors = errors\<rparr>))"

section \<open>The orchestrator (sdk.js, getLeadsForDateRange)\<close>

text \<open>
  The client's \<open>getLeads\<close> is the transport: it returns a result or throws. A lead and
  the raw response are opaque payloads, kept as strings. The loggers write to files and
  are left out; \<open>downloadLeadsAsJSON\<close> writes a file and returns its path, or \<open>null\<close>.
\<close>

record ClientError =
  err_message :: string
  err_statusCode :: "int option"

record ApiResult =
  res_code :: int
  res_message :: string
  res_totalRecords :: nat
  res_leads :: "string list"
  res_raw :: string

record ResponseData =
  rsp_code :: int
  rsp_message :: string
  rsp_totalRecords :: nat
  rsp_leads :: "string list"
  rsp_raw :: string
  rsp_downloadPath :: "string option"
  rsp_compliance :: ComplianceResult

text \<open>
  The \<open>error\<close> text of a failure: a fixed prefix with the joined validation errors, the
  message of the caught exception as it is, or the fixed text of the outer handler.
\<close>

datatype ErrorText =
  InvalidDateParameters "string list"    \<comment> \<open>\<open>Invalid date parameters: ...\<close>\<close>
| DateComplianceError "string list"      \<comment> \<open>\<open>Date compliance error: ...\<close>\<close>
| RateLimitExceeded RateLimitMessage     \<comment> \<open>message of \<open>new Error('Rate limit exceeded: ...')\<close>\<close>
| ThrownMessage string                   \<comment> \<open>\<open>err.message\<close> of what the client threw\<close>
| InternalErrorOccurred                  \<comment> \<open>\<open>Internal error occurred\<close>\<close>

text \<open>
  A failure object is \<open>{success: false, error, code, leads: [], raw: null,
  downloadPath: null, compliance}\<close>; the three constant fields are not repeated.
\<close>

record FailureResult =
  f_error :: ErrorText
  f_code :: int
  f_compliance :: "ComplianceResult option"

datatype SdkResult = Success ResponseData | Failure FailureResult

datatype Event =
  CacheLookup string
| RateLimitChecked
| TransportCalled instant instant
| CallRecorded bool
| LeadsDownloaded
| CacheStored string

record Environment =
  clock :: Clock
  initializeThrows :: bool
  toISOString :: "instant \<Rightarrow> string"
  getLeads :: "instant \<Rightarrow> instant \<Rightarrow> ClientError + ApiResult"
  downloadLeadsAsJSON :: "string list \<Rightarrow> string option"

text \<open>
  The state of an SDK instance: its cache, the limiter's file, and the trace of the
  calls it has made to the cache, the limiter and the client, in order.
\<close>

record SdkState =
  isInitialized :: bool
  sdk_cache :: "ResponseData CacheManager"
  rateLimitFile :: RateLimitData
  events :: "Event list"

definition leadsCacheKey :: "(instant \<Rightarrow> string) \<Rightarrow> instant \<Rightarrow> instant \<Rightarrow> string" where
  \<comment> \<open>\<open>generateKey('leads', {startDate, endDate})\<close>: the keys sorted, joined with \<open>|\<close>\<close>
  "leadsCacheKey isoString start end =
     ''leads'' @ '':'' @ (''endDate'' @ '':'' @ isoString end) @ ''|''
       @ (''startDate'' @ '':'' @ isoString start)"

definition statusOr500 :: "int option \<Rightarrow> int" where
  \<comment> \<open>\<open>err.statusCode || 500\<close>\<close>
  "statusOr500 c = (case c of None \<Rightarrow> 500 | Some x \<Rightarrow> if x = 0 then 500 else x)"

definition failedCall ::
  "Environment \<Rightarrow> ComplianceResult \<Rightarrow> ErrorText \<Rightarrow> int option \<Rightarrow> instant \<Rightarrow> SdkState
     \<Rightarrow> SdkResult \<times> SdkState" where
  \<comment> \<open>the inner \<open>catch (err)\<close>: \<open>recordCall(false)\<close>, then the failure object\<close>
  "failedCall env compl text status instantNow st =
     (Failure \<lparr>f_error = text, f_code = statusOr500 status, f_compliance = Some compl\<rparr>,
      st\<lparr>rateLimitFile := recordCall instantNow False (rateLimitFile st),
         events := events st @ [CallRecorded False]\<rparr>)"

definition callClient ::
  "Environment \<Rightarrow> ComplianceResult \<Rightarrow> string \<Rightarrow> instant \<Rightarrow> instant \<Rightarrow> SdkState
     \<Rightarrow> SdkResult \<times> SdkState" where
  \<comment> \<open>the inner \<open>try\<close>: rate-limit check, client call, recording, caching\<close>
  "callClient env compl cacheKey start end st =
     (let run = canMakeCall (clock_now (clock env)) (rateLimitFile st);
          st1 = st\<lparr>rateLimitFile := stored run, events := events st @ [RateLimitChecked]\<rparr>
      in if \<not> allowed (answer run) then
           failedCall env compl (RateLimitExceeded (message (answer run))) None
             (clock_now (clock env)) st1
         else
           (let st2 = st1\<lparr>events := events st1 @ [TransportCalled start end]\<rparr>
            in case getLeads env start end of
                 Inl err \<Rightarrow>
                   failedCall env compl (ThrownMessage (err_message err)) (err_statusCode err)
                     (clock_done (clock env)) st2
               | Inr result \<Rightarrow>
                   (let file' = recordCall (clock_done (clock env)) True (rateLimitFile st2);
                        downloadPath = (if res_leads result \<noteq> []
                                        then downloadLeadsAsJSON env (res_leads result)
                                        else None);
                        responseData =
                          \<lparr>rsp_code = res_code result, rsp_message = res_message result,
                           rsp_totalRecords = res_totalRecords result,
                           rsp_leads = res_leads result, rsp_raw = res_raw result,
                           rsp_downloadPath = downloadPath, rsp_compliance = compl\<rparr>;
                        cache' = cache_set (clock_done (clock env)) cacheKey responseData
                                   (Some 300000) (sdk_cache st2)
                    in (Success responseData,
                        st2\<lparr>rateLimitFile := file', sdk_cache := cache',
                            events := events st2
                              @ [CallRecorded True]
                              @ (if res_leads result \<noteq> [] then [LeadsDownloaded] else [])
                              @ [CacheStored cacheKey]\<rparr>))))"

text \<open>
  \<open>getLeadsForDateRange\<close>. A throw of \<open>initialize\<close> is caught by the outer handler. A
  validation that is valid carries a date, so the last case of the inner \<open>case\<close> is
  never taken; it stands for the outer handler as well.
\<close>

definition getLeadsForDateRange ::
  "Environment \<Rightarrow> DateArg \<Rightarrow> DateArg \<Rightarrow> SdkState \<Rightarrow> SdkResult \<times> SdkState" where
  "getLeadsForDateRange env startArg endArg st =
     (if \<not> isInitialized st \<and> initializeThrows env then
        (Failure \<lparr>f_error = InternalErrorOccurred, f_code = 500, f_compliance = None\<rparr>, st)
      else
        (let st0 = st\<lparr>isInitialized := True\<rparr>;
             startValidation = validateDate (clock env) startArg;
             endValidation = validateDate (clock env) endArg
         in if \<not> dv_isValid startValidation \<or> \<not> dv_isValid endValidation then
              (Failure \<lparr>f_error = InvalidDateParameters
                                    (dv_errors startValidation @ dv_errors endValidation),
                        f_code = 400, f_compliance = None\<rparr>, st0)
            else
              (let compl = validateDateRange (clock_now (clock env))
                             (dv_value startValidation) (dv_value endValidation)
               in if \<not> c_isValid compl then
                    (Failure \<lparr>f_error = DateComplianceError (c_errors compl), f_code = 400,
                              f_compliance = Some compl\<rparr>, st0)
                  else
                    (case (dv_value startValidation, dv_value endValidation) of
                       (Some start, Some end) \<Rightarrow>
                         (let cacheKey = leadsCacheKey (toISOString env) start end;
                              (cachedResult, cache') =
                                 cache_get (clock_now (clock env)) cacheKey (sdk_cache st0);
                              st1 = st0\<lparr>sdk_cache := cache',
                                       events := events st0 @ [CacheLookup cacheKey]\<rparr>
                          in case cachedResult of
                               Some responseData \<Rightarrow> (Success responseData, st1)
                             | None \<Rightarrow> callClient env compl cacheKey start end st1)
                     | _ \<Rightarrow>
                         (Failure \<lparr>f_error = InternalErrorOccurred, f_code = 500,
                                   f_compliance = None\<rparr>, st0)))))"

text \<open>A clock, an environment whose client throws, and a new SDK instance, for examples.\<close>

definition exampleClock :: Clock where
  "exampleClock =
     \<lparr>clock_now = 90000000, clock_done = 90000250,
      oneYearAgo = - 31469400000, oneYearFromNow = 31602600000\<rparr>"

definition exampleISO :: "instant \<Rightarrow> string" where
  "exampleISO t = (if t = 0 then ''1970-01-01T00:00:00.000Z''
                   else if t = 86400000 then ''1970-01-02T00:00:00.000Z''
                   else ''1970-01-02T01:00:00.000Z'')"

definition failingEnv :: Environment where
  "failingEnv =
     \<lparr>clock = exampleClock, initializeThrows = False, toISOString = exampleISO,
      getLeads = (\<lambda>start end. Inl \<lparr>err_message = ''fetch failed'', err_statusCode = None\<rparr>),
      downloadLeadsAsJSON = (\<lambda>leads. None)\<rparr>"

definition newSdkState :: SdkState where
  "newSdkState =
     \<lparr>isInitialized = False, sdk_cache = newCacheManager 1000 300000,
      rateLimitFile = rateLimiter_reset 0, events = []\<rparr>"

definition succeedingEnv :: Environment where
  "succeedingEnv =
     \<lparr>clock = exampleClock, initializeThrows = False, toISOString = exampleISO,
      getLeads = (\<lambda>start end. Inr \<lparr>res_code = 200, res_message = ''ok'',
                                     res_totalRecords = 1, res_leads = [''lead-1''],
                                     res_raw = ''raw''\<rparr>),
      downloadLeadsAsJSON = (\<lambda>leads. Some ''downloads/leads.json'')\<rparr>"


text \<open>
  The response of the succeeding client as the orchestrator returns and caches it, the
  state of a new instance after that request, and the same environment a minute later.
\<close>

definition exampleKey :: string where
  "exampleKey = ''leads:endDate:1970-01-02T00:00:00.000Z|startDate:1970-01-01T00:00:00.000Z''"

definition exampleCompliance :: ComplianceResult where
  "exampleCompliance =
     \<lparr>c_isValid = True, c_errors = [], c_warnings = [], c_compliance = COMPLIANT,
      c_days = Some 1, c_daysFromNow = Some 2\<rparr>"

definition exampleResponse :: ResponseData where
  "exampleResponse =
     \<lparr>rsp_code = 200, rsp_message = ''ok'', rsp_totalRecords = 1, rsp_leads = [''lead-1''],
      rsp_raw = ''raw'', rsp_downloadPath = Some ''downloads/leads.json'',
      rsp_compliance = exampleCompliance\<rparr>"

definition cachedState :: SdkState where
  "cachedState =
     \<lparr>isInitialized = True,
      sdk_cache =
        \<lparr>maxSize = 1000, defaultTTL = 300000,
         cache = [(exampleKey, newCacheEntry 90000250 exampleKey exampleResponse 300000)],
         stats = \<lparr>hits = 0, misses = 1, evictions = 0, stat_size = 1\<rparr>\<rparr>,
      rateLimitFile = \<lparr>calls = [90000250], blockedUntil = None, lastReset = 0\<rparr>,
      events = [CacheLookup exampleKey, RateLimitChecked, TransportCalled 0 86400000,
                CallRecorded True, LeadsDownloaded, CacheStored exampleKey]\<rparr>"

definition laterEnv :: Environment where
  "laterEnv = succeedingEnv\<lparr>clock := exampleClock\<lparr>clock_now := 90060000,
                                                    clock_done := 90060250\<rparr>\<rparr>"

section \<open>Arithmetic of whole days\<close>

lemma msPerDay_pos: "0 < msPerDay"
  by (simp add: msPerDay_def)

lemma ceilDays_ceiling: "ceilDays d = \<lceil>real_of_int d / real_of_int msPerDay\<rceil>"
  unfolding ceilDays_def by (simp add: ceiling_divide_eq_div)

lemma less_ceilDays_iff: "k < ceilDays d \<longleftrightarrow> k * msPerDay < d"
proof -
  have pos: "0 < real_of_int msPerDay" using msPerDay_pos by simp
  have "k < ceilDays d \<longleftrightarrow> real_of_int k < real_of_int d / real_of_int msPerDay"
    unfolding ceilDays_ceiling by (rule less_ceiling_iff)
  also have "\<dots> \<longleftrightarrow> real_of_int k * real_of_int msPerDay < real_of_int d"
    using pos by (simp add: pos_less_divide_eq)
  also have "\<dots> \<longleftrightarrow> real_of_int (k * msPerDay) < real_of_int d" by simp
  also have "\<dots> \<longleftrightarrow> k * msPerDay < d" by (rule of_int_less_iff)
  finally show ?thesis .
qed

lemma ceilDays_gt_iff: "ceilDays d > 7 \<longleftrightarrow> d > 7 * msPerDay"
  by (rule less_ceilDays_iff)

lemma ceilDays_gt_365_iff: "ceilDays d > 365 \<longleftrightarrow> d > 365 * msPerDay"
  by (rule less_ceilDays_iff)

lemma ceilDays_neg_iff: "ceilDays d < 0 \<longleftrightarrow> d \<le> - msPerDay"
proof -
  have "ceilDays d < 0 \<longleftrightarrow> \<not> (-1 < ceilDays d)" by linarith
  also have "\<dots> \<longleftrightarrow> \<not> (-1 * msPerDay < d)" by (simp only: less_ceilDays_iff)
  also have "\<dots> \<longleftrightarrow> d \<le> - msPerDay" by linarith
  finally show ?thesis .
qed

lemma ceilDays_mult: "ceilDays (k * msPerDay) = k"
proof -
  have ne: "msPerDay \<noteq> 0" using msPerDay_pos by simp
  have a: "(- k) * msPerDay div msPerDay = - k"
    using ne by (rule nonzero_mult_div_cancel_right)
  have b: "- (k * msPerDay) = (- k) * msPerDay" by simp
  show ?thesis unfolding ceilDays_def b a by simp
qed

section \<open>Minimum interval between calls\<close>

text \<open>
  \<open>RateLimiter.canMakeCall\<close> has no minimum interval: it knows the block, the hourly
  ceiling and the per-minute ceiling only. A check in the very millisecond of a recorded
  successful call (elapsed time 0, below the five minutes) is allowed, with
  \<open>retryAfter = 0\<close>.
\<close>

theorem canMakeCall_no_minimum_interval_counterexample:
  "allowed (answer (canMakeCall 1000 (recordCall 1000 True (rateLimiter_reset 0)))) \<and>
   retryAfter (answer (canMakeCall 1000 (recordCall 1000 True (rateLimiter_reset 0)))) = 0 \<and>
   (1000::int) - 1000 < minIntervalMs"
  by (simp add: canMakeCall_def checkWindows_def recordCall_def rateLimiter_reset_def
        callsPerHour_def callsPerMinute_def minIntervalMs_def Let_def)

text \<open>
  Claim C1, as the code has it. The minimum interval is enforced by
  \<open>IndiaMartComplianceManager.validateCall\<close>: when a last call is recorded and less than
  \<open>minIntervalMs\<close> (five minutes) has passed since, the check is invalid and holds a
  \<open>MINIMUM_INTERVAL_VIOLATION\<close> whose \<open>retryAfter\<close> is exactly the remaining wait,
  \<open>minIntervalMs - elapsed\<close>, whatever the dates and the other violations are.
\<close>

theorem validateCall_minimum_interval:
  assumes "lastCallTime s = Some t" and "t \<noteq> 0" and "now - t < minIntervalMs"
  shows "\<not> isValid (fst (validateCall now a b s)) \<and>
         \<lparr>v_type = MINIMUM_INTERVAL_VIOLATION, v_errors = [],
          v_retryAfter = minIntervalMs - (now - t)\<rparr>
           \<in> set (violations (fst (validateCall now a b s)))"
  using assms by (simp add: validateCall_def Let_def truthyTime_def numberOf_def)

text \<open>
  At a concrete input: \<open>validateCall\<close> in the millisecond of \<open>recordCall\<close> is denied and
  asks for the full five minutes.
\<close>

theorem validateCall_minimum_interval_witness:
  "lastCallTime (cm_recordCall 1000 newComplianceState) = Some 1000 \<and> (1000::int) \<noteq> 0 \<and>
   (1000::int) - 1000 < minIntervalMs \<and>
   \<not> isValid (fst (validateCall 1000 (At 0) (At 500) (cm_recordCall 1000 newComplianceState))) \<and>
   \<lparr>v_type = MINIMUM_INTERVAL_VIOLATION, v_errors = [], v_retryAfter = 300000\<rparr>
     \<in> set (violations (fst (validateCall 1000 (At 0) (At 500)
                                (cm_recordCall 1000 newComplianceState))))"
proof -
  have h1: "lastCallTime (cm_recordCall 1000 newComplianceState) = Some 1000"
    by (simp add: cm_recordCall_def newComplianceState_def)
  have h2: "(1000::int) \<noteq> 0" by simp
  have h3: "(1000::int) - 1000 < minIntervalMs" by (simp add: minIntervalMs_def)
  show ?thesis
    using validateCall_minimum_interval [OF h1 h2 h3, of "At 0" "At 500"] h1 h3
    by (simp add: minIntervalMs_def)
qed

section \<open>Recovery from a block\<close>




section \<open>Date-range validation\<close>

text \<open>
  With a malformed start date the validator returns at once: an end date in the future
  (2000 after \<open>now = 1000\<close>) is not reported, the only error is the format error.
\<close>

theorem validateDateRange_short_circuit_counterexample:
  "(2000::int) > 1000 \<and>
   ''End date cannot be in the future''
     \<notin> set (c_errors (validateDateRange 1000 None (Some 2000))) \<and>
   c_errors (validateDateRange 1000 None (Some 2000)) = [''Invalid start date format'']"
  by (simp add: validateDateRange_def)

text \<open>
  Claim C5, as the code has it. For two well-formed dates every rule is evaluated on its
  own and every violation is collected: each of the five messages is in the error list
  exactly when its rule is violated, whatever the other rules say; in particular the
  range-too-long message is present for every span of more than seven days. The result is
  valid exactly when the list is empty. When a date is malformed the validator returns
  the format errors alone.
\<close>

theorem validateDateRange_collects_all:
  "(''Start date must be before end date''
       \<in> set (c_errors (validateDateRange now (Some s) (Some e))) \<longleftrightarrow> s \<ge> e) \<and>
   (''End date cannot be in the future''
       \<in> set (c_errors (validateDateRange now (Some s) (Some e))) \<longleftrightarrow> e > now) \<and>
   (''Date range cannot exceed 7 days (IndiaMART limit)''
       \<in> set (c_errors (validateDateRange now (Some s) (Some e)))
         \<longleftrightarrow> e - s > 7 * msPerDay) \<and>
   (''Data older than 365 days is not available (IndiaMART limit)''
       \<in> set (c_errors (validateDateRange now (Some s) (Some e)))
         \<longleftrightarrow> now - s > 365 * msPerDay) \<and>
   (''Start date cannot be in the future''
       \<in> set (c_errors (validateDateRange now (Some s) (Some e)))
         \<longleftrightarrow> now - s \<le> - msPerDay) \<and>
   c_isValid (validateDateRange now (Some s) (Some e))
     = (c_errors (validateDateRange now (Some s) (Some e)) = []) \<and>
   c_errors (validateDateRange now None x) = ''Invalid start date format'' #
       (if x = None then [''Invalid end date format''] else []) \<and>
   c_errors (validateDateRange now (Some s) None) = [''Invalid end date format'']"
  by (simp add: validateDateRange_def Let_def maxDateRangeDays_def maxHistoricalDays_def
        ceilDays_gt_iff ceilDays_gt_365_iff ceilDays_neg_iff split: option.split)

text \<open>
  At a concrete input: a range of nine days that ends in the future breaks two rules, and
  both messages are in the list.
\<close>

theorem validateDateRange_collects_all_witness:
  "c_errors (validateDateRange 0 (Some (- 9 * msPerDay + 1)) (Some 1))
     = [''End date cannot be in the future'',
        ''Date range cannot exceed 7 days (IndiaMART limit)''] \<and>
   ''Date range cannot exceed 7 days (IndiaMART limit)''
     \<in> set (c_errors (validateDateRange 0 (Some (- 9 * msPerDay + 1)) (Some 1))) \<and>
   \<not> c_isValid (validateDateRange 0 (Some (- 9 * msPerDay + 1)) (Some 1))"
proof -
  have d: "ceilDays (9 * msPerDay) = 9" by (rule ceilDays_mult)
  have e: "c_errors (validateDateRange 0 (Some (- 9 * msPerDay + 1)) (Some 1))
     = [''End date cannot be in the future'',
        ''Date range cannot exceed 7 days (IndiaMART limit)'']"
    using d msPerDay_pos
    by (simp add: validateDateRange_def Let_def maxDateRangeDays_def maxHistoricalDays_def
          ceilDays_neg_iff less_ceilDays_iff)
  show ?thesis
    using e validateDateRange_collects_all [of 0 "- 9 * msPerDay + 1" 1] by simp
qed

section \<open>Look-back ranges\<close>



section \<open>Cache capacity\<close>

text \<open>
  Claim C6 at a failing input. A cache of capacity 1 receives \<open>set\<close> for two distinct
  keys in the same millisecond. \<open>evictLRU\<close> starts its scan from \<open>lruTime = Date.now()\<close>
  and compares with \<open><\<close>: the entry written in this millisecond is not older, nothing is
  evicted, and the cache holds two entries.
\<close>

theorem cache_set_same_instant_overflow:
  "maxSize (cache_set 1000 ''b'' (2::nat) None
              (cache_set 1000 ''a'' 1 None (newCacheManager 1 0))) = 1 \<and>
   cache_size (cache_set 1000 ''b'' (2::nat) None
              (cache_set 1000 ''a'' 1 None (newCacheManager 1 0))) = 2 \<and>
   evictions (stats (cache_set 1000 ''b'' (2::nat) None
              (cache_set 1000 ''a'' 1 None (newCacheManager 1 0)))) = 0"
  by (simp add: cache_size_def cache_set_def newCacheManager_def evictLRU_def lruScan_def
        newCacheEntry_def Let_def AList.delete_eq)

section \<open>Cache statistics\<close>





section \<open>Error classification\<close>

text \<open>
  Claim C8. A 401 whose message contains \<open>incorrect\<close> is classified as
  \<open>INVALID_API_KEY\<close> (the invalid-credential kind) with \<open>retryAfter = 0\<close>, and is never
  retried; a 429 whose message contains \<open>5 minutes\<close> is classified as
  \<open>RATE_LIMIT_5_MIN\<close> (the short rate limit) with \<open>retryAfter = 300000\<close>, and is retried
  as long as the attempts are below the maximum.
\<close>

theorem createSpecificError_classification:
  "(msgIncludes m ''incorrect'' \<longrightarrow>
      e_details (createSpecificError 401 st m)
        = Some \<lparr>d_type = INVALID_API_KEY, d_retryAfter = 0,
                d_suggestion = ''Verify your INDIAMART_CRM_KEY in environment variables''\<rparr> \<and>
      \<not> shouldRetry maxRetries (createSpecificError 401 st m) n) \<and>
   (msgIncludes m ''5 minutes'' \<longrightarrow>
      e_details (createSpecificError 429 st m)
        = Some \<lparr>d_type = RATE_LIMIT_5_MIN, d_retryAfter = 300000,
                d_suggestion = ''Wait 5 minutes before retrying''\<rparr> \<and>
      shouldRetry maxRetries (createSpecificError 429 st m) n = (n < maxRetries))"
  by (auto simp add: createSpecificError_def mkError_def shouldRetry_def noRetryTypes_def)

text \<open>
  At the two inputs of the specification, with the default of three retries and no
  attempt made yet.
\<close>

theorem createSpecificError_classification_witness:
  "msgIncludes (Some ''incorrect'') ''incorrect'' \<and>
   msgIncludes (Some ''5 minutes'') ''5 minutes'' \<and>
   e_details (createSpecificError 401 None (Some ''incorrect''))
        = Some \<lparr>d_type = INVALID_API_KEY, d_retryAfter = 0,
                d_suggestion = ''Verify your INDIAMART_CRM_KEY in environment variables''\<rparr> \<and>
   \<not> shouldRetry (handlerMaxRetries 0) (createSpecificError 401 None (Some ''incorrect'')) 0 \<and>
   e_details (createSpecificError 429 None (Some ''5 minutes''))
        = Some \<lparr>d_type = RATE_LIMIT_5_MIN, d_retryAfter = 300000,
                d_suggestion = ''Wait 5 minutes before retrying''\<rparr> \<and>
   shouldRetry (handlerMaxRetries 0) (createSpecificError 429 None (Some ''5 minutes'')) 0"
proof -
  have a: "msgIncludes (Some ''incorrect'') ''incorrect''" by (simp add: msgIncludes_def)
  have b: "msgIncludes (Some ''5 minutes'') ''5 minutes''" by (simp add: msgIncludes_def)
  show ?thesis
    using a b
      createSpecificError_classification [of "Some ''incorrect''" None "handlerMaxRetries 0" 0]
      createSpecificError_classification [of "Some ''5 minutes''" None "handlerMaxRetries 0" 0]
    by (simp add: handlerMaxRetries_def)
qed

section \<open>The orchestrator\<close>

subsection \<open>Two concrete requests\<close>

lemmas sdk_defs =
  getLeadsForDateRange_def callClient_def failedCall_def statusOr500_def
  failingEnv_def succeedingEnv_def laterEnv_def newSdkState_def cachedState_def
  exampleClock_def exampleISO_def exampleKey_def exampleCompliance_def exampleResponse_def
  validateDate_def validateDateRange_def ceilDays_def msPerDay_def maxDateRangeDays_def
  maxHistoricalDays_def leadsCacheKey_def cache_get_def cache_set_def newCacheManager_def
  newCacheEntry_def isExpired_def touch_def
  canMakeCall_def checkWindows_def recordCall_def rateLimiter_reset_def callsPerHour_def
  callsPerMinute_def Let_def

text \<open>
  A new instance asks for the first day of 1970 and the client throws: the limiter was
  asked once, the client was called once, and the limiter's history is still empty.
\<close>

lemma failing_request_run:
  "getLeadsForDateRange failingEnv (DateArg (Some 0)) (DateArg (Some 86400000)) newSdkState
     = (Failure \<lparr>f_error = ThrownMessage ''fetch failed'', f_code = 500,
                  f_compliance = Some exampleCompliance\<rparr>,
        \<lparr>isInitialized = True,
         sdk_cache = \<lparr>maxSize = 1000, defaultTTL = 300000, cache = [],
                      stats = \<lparr>hits = 0, misses = 1, evictions = 0, stat_size = 0\<rparr>\<rparr>,
         rateLimitFile = \<lparr>calls = [], blockedUntil = None, lastReset = 0\<rparr>,
         events = [CacheLookup exampleKey, RateLimitChecked, TransportCalled 0 86400000,
                   CallRecorded False]\<rparr>)"
  by (simp add: sdk_defs)

text \<open>The same request with a client that answers; it leaves \<open>cachedState\<close>.\<close>

lemma succeeding_request_run:
  "getLeadsForDateRange succeedingEnv (DateArg (Some 0)) (DateArg (Some 86400000)) newSdkState
     = (Success exampleResponse, cachedState)"
  by (simp add: sdk_defs)

lemma example_dates_valid:
  "dv_isValid (validateDate exampleClock (DateArg (Some 0)))"
  "dv_isValid (validateDate exampleClock (DateArg (Some 86400000)))"
  "dv_isValid (validateDate exampleClock (DateArg (Some 864000000)))"
  "dv_value (validateDate exampleClock (DateArg (Some 0))) = Some 0"
  "dv_value (validateDate exampleClock (DateArg (Some 86400000))) = Some 86400000"
  "dv_value (validateDate exampleClock (DateArg (Some 864000000))) = Some 864000000"
  by (simp_all add: validateDate_def exampleClock_def)

lemma example_compliance:
  "validateDateRange 90000000 (Some 0) (Some 86400000) = exampleCompliance"
  "validateDateRange 90060000 (Some 0) (Some 86400000) = exampleCompliance"
  "\<not> c_isValid (validateDateRange 90000000 (Some 0) (Some 864000000))"
  by (simp_all add: validateDateRange_def exampleCompliance_def ceilDays_def msPerDay_def
        maxDateRangeDays_def maxHistoricalDays_def Let_def)

subsection \<open>Early returns\<close>

text \<open>
  Claim C7. Once the SDK is initialized and both dates pass the input validation: if the
  compliance validation fails, the result is the compliance failure, and the cache, the
  limiter's file and the trace of calls are as before (no cache lookup, no rate-limiter
  call, no client call); if it passes and the cache holds an entry for the request key
  that is not expired, the result is the cached value, the only call made is the cache
  lookup, and the limiter's file is as before.
\<close>

theorem getLeadsForDateRange_early_returns:
  fixes env :: Environment and startArg endArg :: DateArg and st :: SdkState
  defines "sv \<equiv> validateDate (clock env) startArg"
      and "ev \<equiv> validateDate (clock env) endArg"
  defines "compl \<equiv> validateDateRange (clock_now (clock env)) (dv_value sv) (dv_value ev)"
      and "out \<equiv> getLeadsForDateRange env startArg endArg st"
  assumes init: "isInitialized st \<or> \<not> initializeThrows env"
      and valid: "dv_isValid sv" "dv_isValid ev"
  shows "(\<not> c_isValid compl \<longrightarrow>
            fst out = Failure \<lparr>f_error = DateComplianceError (c_errors compl), f_code = 400,
                               f_compliance = Some compl\<rparr> \<and>
            sdk_cache (snd out) = sdk_cache st \<and>
            rateLimitFile (snd out) = rateLimitFile st \<and>
            events (snd out) = events st) \<and>
         (\<forall>start end entry.
            c_isValid compl \<and> dv_value sv = Some start \<and> dv_value ev = Some end \<and>
            map_of (cache (sdk_cache st)) (leadsCacheKey (toISOString env) start end)
              = Some entry \<and>
            \<not> isExpired (clock_now (clock env)) entry \<longrightarrow>
            fst out = Success (entry_value entry) \<and>
            rateLimitFile (snd out) = rateLimitFile st \<and>
            events (snd out)
              = events st @ [CacheLookup (leadsCacheKey (toISOString env) start end)])"
proof (intro conjI allI impI)
  assume bad: "\<not> c_isValid compl"
  have eq: "out = (Failure \<lparr>f_error = DateComplianceError (c_errors compl), f_code = 400,
                            f_compliance = Some compl\<rparr>, st\<lparr>isInitialized := True\<rparr>)"
    using init valid bad
    unfolding out_def compl_def sv_def ev_def getLeadsForDateRange_def
    by (auto simp add: Let_def)
  show "fst out = Failure \<lparr>f_error = DateComplianceError (c_errors compl), f_code = 400,
                           f_compliance = Some compl\<rparr>" by (simp add: eq)
  show "sdk_cache (snd out) = sdk_cache st" by (simp add: eq)
  show "rateLimitFile (snd out) = rateLimitFile st" by (simp add: eq)
  show "events (snd out) = events st" by (simp add: eq)
next
  fix start "end" entry
  assume h: "c_isValid compl \<and> dv_value sv = Some start \<and> dv_value ev = Some end \<and>
            map_of (cache (sdk_cache st)) (leadsCacheKey (toISOString env) start end)
              = Some entry \<and>
            \<not> isExpired (clock_now (clock env)) entry"
  let ?key = "leadsCacheKey (toISOString env) start end"
  have get: "cache_get (clock_now (clock env)) ?key (sdk_cache st)
      = (Some (entry_value entry),
         (sdk_cache st)\<lparr>cache := AList.update ?key (touch (clock_now (clock env)) entry)
                                    (cache (sdk_cache st)),
                        stats := (stats (sdk_cache st))\<lparr>hits := hits (stats (sdk_cache st)) + 1\<rparr>\<rparr>)"
    using h by (simp add: cache_get_def)
  have eq: "out = (Success (entry_value entry),
       st\<lparr>isInitialized := True,
          sdk_cache := (sdk_cache st)\<lparr>cache := AList.update ?key (touch (clock_now (clock env)) entry)
                                    (cache (sdk_cache st)),
                        stats := (stats (sdk_cache st))\<lparr>hits := hits (stats (sdk_cache st)) + 1\<rparr>\<rparr>,
          events := events st @ [CacheLookup ?key]\<rparr>)"
    using init valid h get
    unfolding out_def compl_def sv_def ev_def getLeadsForDateRange_def
    by (auto simp add: Let_def)
  show "fst out = Success (entry_value entry)" by (simp add: eq)
  show "rateLimitFile (snd out) = rateLimitFile st" by (simp add: eq)
  show "events (snd out) = events st @ [CacheLookup ?key]" by (simp add: eq)
qed

text \<open>
  At concrete inputs: a range of ten days on a new instance, and the request of
  \<open>cachedState\<close> repeated a minute later.
\<close>

theorem getLeadsForDateRange_early_returns_witness:
  "\<not> c_isValid (validateDateRange (clock_now (clock failingEnv))
        (dv_value (validateDate (clock failingEnv) (DateArg (Some 0))))
        (dv_value (validateDate (clock failingEnv) (DateArg (Some 864000000))))) \<and>
   events (snd (getLeadsForDateRange failingEnv (DateArg (Some 0)) (DateArg (Some 864000000))
                  newSdkState)) = [] \<and>
   rateLimitFile (snd (getLeadsForDateRange failingEnv (DateArg (Some 0))
                  (DateArg (Some 864000000)) newSdkState)) = rateLimitFile newSdkState \<and>
   map_of (cache (sdk_cache cachedState)) exampleKey
     = Some (newCacheEntry 90000250 exampleKey exampleResponse 300000) \<and>
   \<not> isExpired (clock_now (clock laterEnv))
        (newCacheEntry 90000250 exampleKey exampleResponse 300000) \<and>
   fst (getLeadsForDateRange laterEnv (DateArg (Some 0)) (DateArg (Some 86400000)) cachedState)
     = Success exampleResponse \<and>
   rateLimitFile (snd (getLeadsForDateRange laterEnv (DateArg (Some 0))
                  (DateArg (Some 86400000)) cachedState)) = rateLimitFile cachedState \<and>
   events (snd (getLeadsForDateRange laterEnv (DateArg (Some 0)) (DateArg (Some 86400000))
                  cachedState)) = events cachedState @ [CacheLookup exampleKey]"
proof -
  have c: "clock failingEnv = exampleClock" by (simp add: failingEnv_def)
  have n: "clock_now exampleClock = 90000000" by (simp add: exampleClock_def)
  have init: "isInitialized newSdkState \<or> \<not> initializeThrows failingEnv"
    by (simp add: failingEnv_def)
  have v1: "dv_isValid (validateDate (clock failingEnv) (DateArg (Some 0)))"
    unfolding c by (rule example_dates_valid)
  have v3: "dv_isValid (validateDate (clock failingEnv) (DateArg (Some 864000000)))"
    unfolding c by (rule example_dates_valid)
  have d1: "dv_value (validateDate (clock failingEnv) (DateArg (Some 0))) = Some 0"
    unfolding c by (rule example_dates_valid)
  have d3: "dv_value (validateDate (clock failingEnv) (DateArg (Some 864000000)))
              = Some 864000000"
    unfolding c by (rule example_dates_valid)
  have bad: "\<not> c_isValid (validateDateRange (clock_now (clock failingEnv))
        (dv_value (validateDate (clock failingEnv) (DateArg (Some 0))))
        (dv_value (validateDate (clock failingEnv) (DateArg (Some 864000000)))))"
    unfolding d1 d3 unfolding c n by (rule example_compliance)
  have lc: "clock laterEnv = exampleClock\<lparr>clock_now := 90060000, clock_done := 90060250\<rparr>"
    by (simp add: laterEnv_def)
  have ln: "clock_now (clock laterEnv) = 90060000" by (simp add: laterEnv_def)
  have linit: "isInitialized cachedState \<or> \<not> initializeThrows laterEnv"
    by (simp add: cachedState_def)
  have lv1: "dv_isValid (validateDate (clock laterEnv) (DateArg (Some 0)))"
    unfolding lc by (simp add: validateDate_def exampleClock_def)
  have lv2: "dv_isValid (validateDate (clock laterEnv) (DateArg (Some 86400000)))"
    unfolding lc by (simp add: validateDate_def exampleClock_def)
  have ld1: "dv_value (validateDate (clock laterEnv) (DateArg (Some 0))) = Some 0"
    unfolding lc by (simp add: validateDate_def exampleClock_def)
  have ld2: "dv_value (validateDate (clock laterEnv) (DateArg (Some 86400000))) = Some 86400000"
    unfolding lc by (simp add: validateDate_def exampleClock_def)
  have lcv: "c_isValid (validateDateRange (clock_now (clock laterEnv))
        (dv_value (validateDate (clock laterEnv) (DateArg (Some 0))))
        (dv_value (validateDate (clock laterEnv) (DateArg (Some 86400000)))))"
    unfolding ld1 ld2 ln by (simp add: example_compliance exampleCompliance_def)
  have k: "leadsCacheKey (toISOString laterEnv) 0 86400000 = exampleKey"
    by (simp add: leadsCacheKey_def laterEnv_def succeedingEnv_def exampleISO_def
          exampleKey_def)
  have hit: "map_of (cache (sdk_cache cachedState))
               (leadsCacheKey (toISOString laterEnv) 0 86400000)
             = Some (newCacheEntry 90000250 exampleKey exampleResponse 300000)"
    unfolding k by (simp add: cachedState_def)
  have fresh: "\<not> isExpired (clock_now (clock laterEnv))
        (newCacheEntry 90000250 exampleKey exampleResponse 300000)"
    unfolding ln by (simp add: isExpired_def newCacheEntry_def)
  note a = getLeadsForDateRange_early_returns [OF init v1 v3, THEN conjunct1, rule_format, OF bad]
  note b = getLeadsForDateRange_early_returns [OF linit lv1 lv2, THEN conjunct2, rule_format,
             of 0 86400000 "newCacheEntry 90000250 exampleKey exampleResponse 300000"]
  have b': "fst (getLeadsForDateRange laterEnv (DateArg (Some 0)) (DateArg (Some 86400000)) cachedState)
     = Success (entry_value (newCacheEntry 90000250 exampleKey exampleResponse 300000)) \<and>
   rateLimitFile (snd (getLeadsForDateRange laterEnv (DateArg (Some 0))
                  (DateArg (Some 86400000)) cachedState)) = rateLimitFile cachedState \<and>
   events (snd (getLeadsForDateRange laterEnv (DateArg (Some 0)) (DateArg (Some 86400000))
                  cachedState)) = events cachedState
        @ [CacheLookup (leadsCacheKey (toISOString laterEnv) 0 86400000)]"
    using b lcv ld1 ld2 hit fresh by blast
  have ev0: "events newSdkState = []" by (simp add: newSdkState_def)
  show ?thesis
    using a b' bad hit fresh unfolding k by (simp add: ev0 newCacheEntry_def)
qed

subsection \<open>A failing client call\<close>




subsection \<open>What recordCall records\<close>

text \<open>
  Claim C4 at a failing input. \<open>recordCall(false)\<close> pushes the instant and pops it
  again, so it leaves the file as it was; the orchestrator calls it for every failure.
  In the request above the client was called and threw, and the limiter's history is
  empty afterwards.
\<close>

theorem recordCall_failure_not_recorded:
  "recordCall now False file = file \<and>
   calls (recordCall now True file) = calls file @ [now] \<and>
   TransportCalled 0 86400000
     \<in> set (events (snd (getLeadsForDateRange failingEnv (DateArg (Some 0))
                             (DateArg (Some 86400000)) newSdkState))) \<and>
   calls (rateLimitFile (snd (getLeadsForDateRange failingEnv (DateArg (Some 0))
                             (DateArg (Some 86400000)) newSdkState))) = []"
  by (simp add: failing_request_run recordCall_def)

text \<open>
  On the file of a new limiter: a failed call leaves it as it is, a successful one is
  appended.
\<close>

theorem recordCall_failure_not_recorded_witness:
  "recordCall 90000250 False (rateLimiter_reset 0) = rateLimiter_reset 0 \<and>
   calls (recordCall 90000250 True (rateLimiter_reset 0)) = [90000250] \<and>
   calls (rateLimitFile (snd (getLeadsForDateRange failingEnv (DateArg (Some 0))
                             (DateArg (Some 86400000)) newSdkState))) = []"
  using recordCall_failure_not_recorded [of 90000250 "rateLimiter_reset 0"]
  by (simp add: rateLimiter_reset_def)

end
